theory Spec2Isabelle
  imports Complex_Main "HOL-Library.Log_Nat"
begin

section \<open>The spaced-repetition progress engine (routes/flashcards.js, routes/words.js)\<close>

text \<open>
  Conventions of the embedding.
  \<^item> In the codec, the reconciler, the handlers and \<open>computeReview\<close>, a JavaScript number
    is a \<open>real\<close> and the arithmetic is read as exact (no NaN, no infinities, no rounding):
    this serves the properties of order, bounds and membership. Where the value computed
    matters, \<open>computeReviewIEEE\<close> is the same review step in IEEE binary64, with the
    \<open>Date\<close> constructor.
  \<^item> A timestamp (a \<open>Date\<close>, or the string of a date) is its time value, an \<open>int\<close> of
    milliseconds; a \<open>Date\<close> is an object, hence truthy.
  \<^item> A field of a stored object is \<open>None\<close> when it is missing (\<open>undefined\<close> or
    \<open>null\<close>) or, for a numeric field, when \<open>typeof\<close> is not \<open>'number'\<close>.
  \<^item> A property read on a missing object raises \<open>TypeError\<close>; it is a value of the model.
  \<^item> An in-place mutation of the user object is modelled by returning the new object.
\<close>

subsection \<open>Data model\<close>

type_synonym timestamp = int

record entry =
  ease :: "real option"
  interval :: "real option"
  reviewCount :: "real option"
  lastReviewed :: "timestamp option"
  nextReview :: "timestamp option"

text \<open>
  The object \<open>user.progress.words\<close>: its properties named by a word id (written by
  \<open>setProgressEntry\<close>), and its property \<open>map\<close>, the \<open>Map\<close> read by routes/words.js.
  Word ids are 24 hexadecimal characters, so no word id is the property name \<open>map\<close>.
\<close>

record words_obj =
  keyed :: "string \<rightharpoonup> entry"
  wmap :: "(string \<rightharpoonup> entry) option"

record progress_rec =
  words :: "words_obj option"
  wordsHistory :: "(string \<times> entry) list option"
  mastered :: "string list option"
  needsReview :: "string list option"

record user =
  progress :: "progress_rec option"

record word =
  wid :: string
  portuguese :: string
  english :: string

datatype js_error = TypeError

subsection \<open>JavaScript idioms\<close>

text \<open>\<open>typeof x === 'number' ? x : d\<close>\<close>

definition num_or :: "real option \<Rightarrow> real \<Rightarrow> real" where
  "num_or x d = (case x of Some v \<Rightarrow> v | None \<Rightarrow> d)"

text \<open>\<open>x || d\<close> on a number or a missing value: zero is falsy.\<close>

definition falsy_or :: "real option \<Rightarrow> real \<Rightarrow> real" where
  "falsy_or x d = (case x of Some v \<Rightarrow> (if v = 0 then d else v) | None \<Rightarrow> d)"

text \<open>
  \<open>x >= c\<close> and \<open>x < c\<close>: a comparison with \<open>undefined\<close> is false. The only caller of
  \<open>setProgressEntry\<close> passes an entry whose interval is a number.
\<close>

definition js_ge :: "real option \<Rightarrow> real \<Rightarrow> bool" where
  "js_ge x c = (case x of Some v \<Rightarrow> c \<le> v | None \<Rightarrow> False)"

definition js_lt :: "real option \<Rightarrow> real \<Rightarrow> bool" where
  "js_lt x c = (case x of Some v \<Rightarrow> v < c | None \<Rightarrow> False)"

text \<open>\<open>Array.prototype.findIndex\<close> (\<open>None\<close> is \<open>-1\<close>) and \<open>splice(i, 1)\<close>.\<close>

fun findIndex :: "('a \<Rightarrow> bool) \<Rightarrow> 'a list \<Rightarrow> nat option" where
  "findIndex P [] = None"
| "findIndex P (x # xs) = (if P x then Some 0 else map_option Suc (findIndex P xs))"

definition splice1 :: "nat \<Rightarrow> 'a list \<Rightarrow> 'a list" where
  "splice1 i xs = take i xs @ drop (Suc i) xs"

subsection \<open>The scheduler: POST /api/flashcards/review, lines 196-224\<close>

definition msPerDay :: int where
  "msPerDay = 24 * 60 * 60 * 1000"

definition computeReview :: "entry \<Rightarrow> string \<Rightarrow> timestamp \<Rightarrow> entry" where
  "computeReview prev difficulty now =
     (let ease0 = num_or (ease prev) 2.5;
          interval0 = num_or (interval prev) 0;
          reviewCount0 = falsy_or (reviewCount prev) 0;
          (ease1, interval1) =
            (if difficulty = ''easy'' then
               (let e = min 3.0 (ease0 + 0.15)
                in (e, if interval0 = 0 then 1 else \<lceil>interval0 * e\<rceil>))
             else if difficulty = ''medium'' then
               (let e = max 1.3 (ease0 - 0.05)
                in (e, if interval0 = 0 then 1 else \<lceil>interval0 * 1.2\<rceil>))
             else (max 1.3 (ease0 - 0.2), 1));
          nextReview1 = now + interval1 * msPerDay
      in \<lparr>ease = Some ease1, interval = Some (of_int interval1),
          reviewCount = Some (reviewCount0 + 1),
          lastReviewed = Some now, nextReview = Some nextReview1\<rparr>)"


subsection \<open>The scheduler in IEEE binary64\<close>

text \<open>
  A JavaScript number: a finite value, an infinity or NaN. The two zeros are one value:
  these lines never divide and never test the sign of a zero.
\<close>

datatype num = Fin real | PInf | NInf | NaN

text \<open>A \<open>Date\<close>: a time value in milliseconds, or an invalid date.\<close>

datatype jsdate = ValidDate int | InvalidDate

text \<open>An entry whose numbers are doubles and whose timestamps are dates.\<close>

record entryN =
  easeN :: "num option"
  intervalN :: "num option"
  reviewCountN :: "num option"
  lastReviewedN :: "jsdate option"
  nextReviewN :: "jsdate option"

text \<open>
  Rounding of an exact result to binary64, to nearest with ties to even: \<open>ilog2 x\<close> is the
  binary exponent of \<open>x\<close> (lemma \<open>ilog2_bounds\<close>), never below -1022 for the subnormal
  numbers; the quantum is 52 binary places below it; a result of \<open>2 ^ 1024\<close> or more is an
  infinity.
\<close>

definition ilog2 :: "real \<Rightarrow> int" where
  "ilog2 x = (if 1 \<le> \<bar>x\<bar> then bitlen \<lfloor>\<bar>x\<bar>\<rfloor> - 1 else - bitlen (\<lceil>1 / \<bar>x\<bar>\<rceil> - 1))"

definition roundHalfEven :: "real \<Rightarrow> int" where
  "roundHalfEven y =
     (let n = \<lfloor>y\<rfloor>; f = y - of_int n
      in if f < 1/2 then n else if 1/2 < f then n + 1 else if even n then n else n + 1)"

definition round64 :: "real \<Rightarrow> num" where
  "round64 x =
     (if x = 0 then Fin 0
      else
        (let e = max (ilog2 x) (- 1022);
             q = 2 powi (e - 52);
             r = of_int (roundHalfEven (\<bar>x\<bar> / q)) * q
         in if 2 powi 1024 \<le> r then (if 0 < x then PInf else NInf)
            else Fin (sgn x * r)))"

text \<open>The operators \<open>+\<close>, unary and binary \<open>-\<close>, \<open>*\<close> and \<open><=\<close> on numbers.\<close>

fun nadd :: "num \<Rightarrow> num \<Rightarrow> num" where
  "nadd NaN b = NaN"
| "nadd a NaN = NaN"
| "nadd PInf NInf = NaN"
| "nadd NInf PInf = NaN"
| "nadd PInf b = PInf"
| "nadd a PInf = PInf"
| "nadd NInf b = NInf"
| "nadd a NInf = NInf"
| "nadd (Fin x) (Fin y) = round64 (x + y)"

fun nneg :: "num \<Rightarrow> num" where
  "nneg NaN = NaN"
| "nneg PInf = NInf"
| "nneg NInf = PInf"
| "nneg (Fin x) = Fin (- x)"

definition nsub :: "num \<Rightarrow> num \<Rightarrow> num" where
  "nsub a b = nadd a (nneg b)"

fun nsign :: "num \<Rightarrow> real" where
  "nsign NaN = 0"
| "nsign PInf = 1"
| "nsign NInf = - 1"
| "nsign (Fin x) = sgn x"

fun nmul :: "num \<Rightarrow> num \<Rightarrow> num" where
  "nmul NaN b = NaN"
| "nmul a NaN = NaN"
| "nmul (Fin x) (Fin y) = round64 (x * y)"
| "nmul a b =
     (if nsign a * nsign b = 0 then NaN else if 0 < nsign a * nsign b then PInf else NInf)"

fun nle :: "num \<Rightarrow> num \<Rightarrow> bool" where
  "nle NaN b = False"
| "nle a NaN = False"
| "nle NInf b = True"
| "nle a PInf = True"
| "nle PInf b = False"
| "nle a NInf = False"
| "nle (Fin x) (Fin y) = (x \<le> y)"

text \<open>\<open>Math.min\<close>, \<open>Math.max\<close> and \<open>Math.ceil\<close>.\<close>

definition nmin :: "num \<Rightarrow> num \<Rightarrow> num" where
  "nmin a b = (if a = NaN \<or> b = NaN then NaN else if nle a b then a else b)"

definition nmax :: "num \<Rightarrow> num \<Rightarrow> num" where
  "nmax a b = (if a = NaN \<or> b = NaN then NaN else if nle a b then b else a)"

fun nceil :: "num \<Rightarrow> num" where
  "nceil (Fin x) = Fin (of_int \<lceil>x\<rceil>)"
| "nceil a = a"

text \<open>A decimal literal of the source is the double nearest to it.\<close>

definition lit :: "real \<Rightarrow> num" where
  "lit x = round64 x"

text \<open>
  \<open>new Date(v)\<close>: an invalid date when \<open>v\<close> is not finite or beyond 8.64e15 in absolute
  value, else the date of \<open>v\<close> truncated to an integer.
\<close>

definition newDate :: "num \<Rightarrow> jsdate" where
  "newDate v =
     (case v of
        Fin x \<Rightarrow> (if \<bar>x\<bar> \<le> 8640000000000000
                  then ValidDate (if 0 \<le> x then \<lfloor>x\<rfloor> else \<lceil>x\<rceil>) else InvalidDate)
      | _ \<Rightarrow> InvalidDate)"

text \<open>
  \<open>typeof x === 'number' ? x : d\<close> (NaN and the infinities are numbers) and \<open>x || d\<close>
  (zero and NaN are falsy).
\<close>

definition numOr :: "num option \<Rightarrow> num \<Rightarrow> num" where
  "numOr x d = (case x of Some v \<Rightarrow> v | None \<Rightarrow> d)"

definition falsyOr :: "num option \<Rightarrow> num \<Rightarrow> num" where
  "falsyOr x d =
     (case x of Some v \<Rightarrow> (if v = Fin 0 \<or> v = NaN then d else v) | None \<Rightarrow> d)"

text \<open>\<open>interval * 24 * 60 * 60 * 1000\<close>, each product rounded, from the left.\<close>

definition intervalMs :: "num \<Rightarrow> num" where
  "intervalMs i = nmul (nmul (nmul (nmul i (lit 24)) (lit 60)) (lit 60)) (lit 1000)"

text \<open>
  Lines 196-224 again, in the arithmetic of the engine. \<open>now\<close> is the time value of
  \<open>new Date()\<close>, a valid date, which a double holds exactly.
\<close>

definition computeReviewIEEE :: "entryN \<Rightarrow> string \<Rightarrow> int \<Rightarrow> entryN" where
  "computeReviewIEEE prev difficulty now =
     (let ease0 = numOr (easeN prev) (lit 2.5);
          interval0 = numOr (intervalN prev) (lit 0);
          reviewCount0 = falsyOr (reviewCountN prev) (lit 0);
          (ease1, interval1) =
            (if difficulty = ''easy'' then
               (let e = nmin (lit 3.0) (nadd ease0 (lit 0.15))
                in (e, if interval0 = Fin 0 then lit 1 else nceil (nmul interval0 e)))
             else if difficulty = ''medium'' then
               (let e = nmax (lit 1.3) (nsub ease0 (lit 0.05))
                in (e, if interval0 = Fin 0 then lit 1 else nceil (nmul interval0 (lit 1.2))))
             else (nmax (lit 1.3) (nsub ease0 (lit 0.2)), lit 1));
          nextReview1 = newDate (nadd (Fin (of_int now)) (intervalMs interval1))
      in \<lparr>easeN = Some ease1, intervalN = Some interval1,
          reviewCountN = Some (nadd reviewCount0 (lit 1)),
          lastReviewedN = Some (ValidDate now), nextReviewN = Some nextReview1\<rparr>)"

subsection \<open>The codec: ensureProgressStructure and getProgressEntry\<close>

text \<open>The object literal \<open>{}\<close> assigned to \<open>user.progress.words\<close>.\<close>

definition emptyWords :: words_obj where
  "emptyWords = \<lparr>keyed = Map.empty, wmap = None\<rparr>"

definition ensureProgressStructure :: "user \<Rightarrow> user" where
  "ensureProgressStructure user =
     (let p0 = (case progress user of
                  None \<Rightarrow> \<lparr>words = Some emptyWords, wordsHistory = Some [],
                           mastered = Some [], needsReview = Some []\<rparr>
                | Some p \<Rightarrow> p);
          p1 = (if words p0 = None then p0\<lparr>words := Some emptyWords\<rparr> else p0);
          p2 = (if wordsHistory p1 = None then p1\<lparr>wordsHistory := Some []\<rparr> else p1);
          p3 = (if mastered p2 = None then p2\<lparr>mastered := Some []\<rparr> else p2);
          p4 = (if needsReview p3 = None then p3\<lparr>needsReview := Some []\<rparr> else p3)
      in user\<lparr>progress := Some p4\<rparr>)"

definition defaultEntry :: entry where
  "defaultEntry = \<lparr>ease = Some 2.5, interval = Some 0, reviewCount = Some 0,
                    lastReviewed = None, nextReview = None\<rparr>"

text \<open>The object built from a history tuple under the comment \<open>Normalize keys\<close>.\<close>

definition normalizeHistory :: "entry \<Rightarrow> entry" where
  "normalizeHistory historyEntry =
     \<lparr>ease = Some (num_or (ease historyEntry) 2.5),
      interval = Some (num_or (interval historyEntry) 0),
      reviewCount = Some (falsy_or (reviewCount historyEntry) 0),
      lastReviewed = lastReviewed historyEntry,
      nextReview = nextReview historyEntry\<rparr>"

text \<open>
  \<open>getProgressEntry\<close> assigns the result of \<open>ensureProgressStructure\<close>, which mutates its
  argument, so the model returns the user object with the entry. An entry of the keyed
  mapping is an object, hence truthy, and is returned as it is stored.
\<close>

definition getProgressEntry :: "user \<Rightarrow> string \<Rightarrow> js_error + (user \<times> entry)" where
  "getProgressEntry user0 wordId =
     (let user = ensureProgressStructure user0 in
      case progress user of
        None \<Rightarrow> Inl TypeError
      | Some p \<Rightarrow>
          (case (case words p of None \<Rightarrow> None | Some w \<Rightarrow> keyed w wordId) of
             Some e \<Rightarrow> Inr (user, e)
           | None \<Rightarrow>
               (case (case wordsHistory p of
                        None \<Rightarrow> None
                      | Some h \<Rightarrow> find (\<lambda>e. fst e = wordId) h) of
                  Some historyEntry \<Rightarrow> Inr (user, normalizeHistory (snd historyEntry))
                | None \<Rightarrow> Inr (user, defaultEntry))))"

subsection \<open>The reconciler: setProgressEntry\<close>

definition setProgressEntry :: "user \<Rightarrow> string \<Rightarrow> entry \<Rightarrow> js_error + user" where
  "setProgressEntry user0 wordId entry =
     (let user = ensureProgressStructure user0 in
      case progress user of None \<Rightarrow> Inl TypeError | Some p \<Rightarrow>
      (case words p of None \<Rightarrow> Inl TypeError | Some w \<Rightarrow>
      (case wordsHistory p of None \<Rightarrow> Inl TypeError | Some h \<Rightarrow>
      (case mastered p of None \<Rightarrow> Inl TypeError | Some m \<Rightarrow>
      (case needsReview p of None \<Rightarrow> Inl TypeError | Some n \<Rightarrow>
        (let stored = \<lparr>ease = ease entry, interval = interval entry,
                       reviewCount = reviewCount entry,
                       lastReviewed = lastReviewed entry, nextReview = nextReview entry\<rparr>;
             w' = w\<lparr>keyed := (keyed w)(wordId \<mapsto> stored)\<rparr>;
             idx = findIndex (\<lambda>e. fst e = wordId) h;
             historyObj = (wordId, stored);
             h' = (case idx of None \<Rightarrow> h @ [historyObj] | Some i \<Rightarrow> h[i := historyObj]);
             masteredIdx = findIndex (\<lambda>x. x = wordId) m;
             needsIdx = findIndex (\<lambda>x. x = wordId) n;
             isMastered = js_ge (interval entry) 21;
             isNeeds = js_lt (interval entry) 7;
             (m', n') =
               (if isMastered then
                  (if masteredIdx = None then m @ [wordId] else m,
                   case needsIdx of None \<Rightarrow> n | Some i \<Rightarrow> splice1 i n)
                else if isNeeds then
                  (case masteredIdx of None \<Rightarrow> m | Some i \<Rightarrow> splice1 i m,
                   if needsIdx = None then n @ [wordId] else n)
                else
                  (case masteredIdx of None \<Rightarrow> m | Some i \<Rightarrow> splice1 i m,
                   case needsIdx of None \<Rightarrow> n | Some i \<Rightarrow> splice1 i n))
         in Inr (user\<lparr>progress := Some (p\<lparr>words := Some w', wordsHistory := Some h',
                                           mastered := Some m', needsReview := Some n'\<rparr>)\<rparr>)))))))"

subsection \<open>Views of a user record\<close>

definition keyedOf :: "user \<Rightarrow> string \<Rightarrow> entry option" where
  "keyedOf u wordId =
     (case progress u of None \<Rightarrow> None
      | Some p \<Rightarrow> (case words p of None \<Rightarrow> None | Some w \<Rightarrow> keyed w wordId))"

definition historyOf :: "user \<Rightarrow> (string \<times> entry) list" where
  "historyOf u =
     (case progress u of None \<Rightarrow> []
      | Some p \<Rightarrow> (case wordsHistory p of None \<Rightarrow> [] | Some h \<Rightarrow> h))"

definition masteredOf :: "user \<Rightarrow> string list" where
  "masteredOf u =
     (case progress u of None \<Rightarrow> []
      | Some p \<Rightarrow> (case mastered p of None \<Rightarrow> [] | Some m \<Rightarrow> m))"

definition needsReviewOf :: "user \<Rightarrow> string list" where
  "needsReviewOf u =
     (case progress u of None \<Rightarrow> []
      | Some p \<Rightarrow> (case needsReview p of None \<Rightarrow> [] | Some n \<Rightarrow> n))"

text \<open>
  The two membership arrays stand for two disjoint sets: no id occurs twice in one of them
  or in both.
\<close>

definition membership_inv :: "user \<Rightarrow> bool" where
  "membership_inv u =
     (distinct (masteredOf u) \<and> distinct (needsReviewOf u)
      \<and> set (masteredOf u) \<inter> set (needsReviewOf u) = {})"

definition wordsObjOf :: "user \<Rightarrow> words_obj" where
  "wordsObjOf u =
     (case progress u of None \<Rightarrow> emptyWords
      | Some p \<Rightarrow> (case words p of None \<Rightarrow> emptyWords | Some w \<Rightarrow> w))"

text \<open>
  The resolution order of the codec, on the views: the entry of the keyed mapping, else
  the first tuple of the history log with that word id, else the default entry.
\<close>

definition resolveEntry :: "user \<Rightarrow> string \<Rightarrow> entry" where
  "resolveEntry u wordId =
     (case keyedOf u wordId of
        Some e \<Rightarrow> e
      | None \<Rightarrow>
          (case find (\<lambda>h. fst h = wordId) (historyOf u) of
             Some h \<Rightarrow> normalizeHistory (snd h)
           | None \<Rightarrow> defaultEntry))"

text \<open>The membership arrays after a write, as set operations on duplicate-free lists.\<close>

definition masteredAfter :: "string list \<Rightarrow> string \<Rightarrow> entry \<Rightarrow> string list" where
  "masteredAfter m w e =
     (if js_ge (interval e) 21 then (if w \<in> set m then m else m @ [w]) else remove1 w m)"

definition needsReviewAfter :: "string list \<Rightarrow> string \<Rightarrow> entry \<Rightarrow> string list" where
  "needsReviewAfter n w e =
     (if js_ge (interval e) 21 then remove1 w n
      else if js_lt (interval e) 7 then (if w \<in> set n then n else n @ [w])
      else remove1 w n)"

subsection \<open>The request handlers of routes/flashcards.js\<close>

text \<open>
  The database: the users by id, and the words in the order in which
  \<open>Word.find().sort({ portuguese: 1 })\<close> returns them. \<open>user.save()\<close> stores the user
  object; a failure of the store is outside the model.
\<close>

record db =
  users :: "string \<rightharpoonup> user"
  wordDocs :: "word list"

record word_progress =
  wpWord :: word
  wpEase :: real
  wpInterval :: real
  wpReviewCount :: real
  wpLastReviewed :: "timestamp option"
  wpNextReview :: "timestamp option"

datatype response =
  JsonError nat string
  | ReviewSaved string entry
  | WordList "word_progress list"
  | WordRemoved

text \<open>
  \<open>isValidObjectId\<close>: \<open>ObjectId.isValid(id)\<close> and \<open>String(new ObjectId(id)) === id\<close> hold
  together for the 24 lower-case hexadecimal characters of an ObjectId.
\<close>

definition isValidObjectId :: "string \<Rightarrow> bool" where
  "isValidObjectId s = (length s = 24 \<and> list_all (\<lambda>c. c \<in> set ''0123456789abcdef'') s)"

text \<open>\<open>!x\<close> on a string of the request body: missing or empty.\<close>

definition falsyStr :: "string option \<Rightarrow> bool" where
  "falsyStr x = (case x of None \<Rightarrow> True | Some s \<Rightarrow> s = [])"

text \<open>The object merged into a word by GET /api/flashcards and GET /api/flashcards/due.\<close>

definition mergeProgress :: "word \<Rightarrow> entry \<Rightarrow> word_progress" where
  "mergeProgress w prog =
     \<lparr>wpWord = w,
      wpEase = num_or (ease prog) 2.5,
      wpInterval = num_or (interval prog) 0,
      wpReviewCount = falsy_or (reviewCount prog) 0,
      wpLastReviewed = lastReviewed prog,
      wpNextReview = nextReview prog\<rparr>"

text \<open>\<open>words.map(...)\<close>: every call of \<open>getProgressEntry\<close> acts on the same user object.\<close>

fun mergeAll :: "user \<Rightarrow> word list \<Rightarrow> js_error + (user \<times> word_progress list)" where
  "mergeAll u [] = Inr (u, [])"
| "mergeAll u (w # ws) =
     (case getProgressEntry u (wid w) of
        Inl err \<Rightarrow> Inl err
      | Inr (u1, prog) \<Rightarrow>
          (case mergeAll u1 ws of
             Inl err \<Rightarrow> Inl err
           | Inr (u2, rest) \<Rightarrow> Inr (u2, mergeProgress w prog # rest)))"

definition listHandler :: "db \<Rightarrow> string \<Rightarrow> response" where
  "listHandler d userId =
     (if \<not> isValidObjectId userId then JsonError 400 ''Invalid user ID''
      else case users d userId of
        None \<Rightarrow> JsonError 404 ''User not found''
      | Some u \<Rightarrow>
          (case mergeAll u (wordDocs d) of
             Inl err \<Rightarrow> JsonError 500 ''Server error fetching user flashcards''
           | Inr (u1, wordsWithProgress) \<Rightarrow> WordList wordsWithProgress))"

definition reviewHandler ::
    "db \<Rightarrow> string \<Rightarrow> string option \<Rightarrow> string option \<Rightarrow> timestamp \<Rightarrow> db \<times> response" where
  "reviewHandler d userId wordIdOpt difficultyOpt now =
     (if falsyStr wordIdOpt \<or> falsyStr difficultyOpt then
        (d, JsonError 400 ''wordId and difficulty are required'')
      else
        (let wordId = (case wordIdOpt of None \<Rightarrow> [] | Some s \<Rightarrow> s);
             difficulty = (case difficultyOpt of None \<Rightarrow> [] | Some s \<Rightarrow> s)
         in if \<not> isValidObjectId userId \<or> \<not> isValidObjectId wordId then
              (d, JsonError 400 ''Invalid userId or wordId'')
            else case users d userId of
              None \<Rightarrow> (d, JsonError 404 ''User not found'')
            | Some u \<Rightarrow>
                (case find (\<lambda>w. wid w = wordId) (wordDocs d) of
                   None \<Rightarrow> (d, JsonError 404 ''Word not found'')
                 | Some w \<Rightarrow>
                     (case getProgressEntry (ensureProgressStructure u) wordId of
                        Inl err \<Rightarrow> (d, JsonError 500 ''Error saving flashcard review'')
                      | Inr (u1, prev) \<Rightarrow>
                          (let updated = computeReview prev difficulty now
                           in case setProgressEntry u1 wordId updated of
                                Inl err \<Rightarrow> (d, JsonError 500 ''Error saving flashcard review'')
                              | Inr u2 \<Rightarrow>
                                  (d\<lparr>users := (users d)(userId \<mapsto> u2)\<rparr>,
                                   ReviewSaved wordId updated))))))"

text \<open>The callback of \<open>words.filter\<close> in GET /api/flashcards/due, on the entry read.\<close>

definition isDue :: "entry \<Rightarrow> timestamp \<Rightarrow> bool" where
  "isDue prog now = (case nextReview prog of None \<Rightarrow> True | Some t \<Rightarrow> t \<le> now)"

fun dueFilter :: "user \<Rightarrow> timestamp \<Rightarrow> word list \<Rightarrow> js_error + (user \<times> word list)" where
  "dueFilter u now [] = Inr (u, [])"
| "dueFilter u now (w # ws) =
     (case getProgressEntry u (wid w) of
        Inl err \<Rightarrow> Inl err
      | Inr (u1, prog) \<Rightarrow>
          (case dueFilter u1 now ws of
             Inl err \<Rightarrow> Inl err
           | Inr (u2, rest) \<Rightarrow> Inr (u2, if isDue prog now then w # rest else rest)))"

definition dueHandler :: "db \<Rightarrow> string \<Rightarrow> timestamp \<Rightarrow> response" where
  "dueHandler d userId now =
     (if \<not> isValidObjectId userId then JsonError 400 ''Invalid user ID''
      else case users d userId of
        None \<Rightarrow> JsonError 404 ''User not found''
      | Some u \<Rightarrow>
          (case dueFilter u now (wordDocs d) of
             Inl err \<Rightarrow> JsonError 500 ''Server error fetching due flashcards''
           | Inr (u1, due) \<Rightarrow>
               (case mergeAll u1 due of
                  Inl err \<Rightarrow> JsonError 500 ''Server error fetching due flashcards''
                | Inr (u2, dueWords) \<Rightarrow> WordList dueWords)))"

subsection \<open>routes/words.js: the listing merge and DELETE /:id\<close>

text \<open>The object literal \<open>{}\<close> that stands for a missing progress entry.\<close>

definition emptyObj :: entry where
  "emptyObj = \<lparr>ease = None, interval = None, reviewCount = None,
                lastReviewed = None, nextReview = None\<rparr>"

text \<open>\<open>user?.progress?.words?.map?.get(id) || {}\<close>\<close>

definition wordsLookup :: "user option \<Rightarrow> string \<Rightarrow> entry" where
  "wordsLookup uo wordId =
     (case uo of None \<Rightarrow> emptyObj | Some u \<Rightarrow>
      (case progress u of None \<Rightarrow> emptyObj | Some p \<Rightarrow>
      (case words p of None \<Rightarrow> emptyObj | Some w \<Rightarrow>
      (case wmap w of None \<Rightarrow> emptyObj | Some m \<Rightarrow>
      (case m wordId of None \<Rightarrow> emptyObj | Some e \<Rightarrow> e)))))"

definition wordsMerge :: "word \<Rightarrow> entry \<Rightarrow> word_progress" where
  "wordsMerge w prog =
     \<lparr>wpWord = w,
      wpEase = falsy_or (ease prog) 2.5,
      wpInterval = falsy_or (interval prog) 0,
      wpReviewCount = falsy_or (reviewCount prog) 0,
      wpLastReviewed = lastReviewed prog,
      wpNextReview = nextReview prog\<rparr>"

text \<open>Lines 63-77 of routes/words.js, on the page of words that the query returned.\<close>

definition wordsListMerge :: "db \<Rightarrow> string \<Rightarrow> word list \<Rightarrow> word_progress list" where
  "wordsListMerge d userId ws =
     map (\<lambda>w. wordsMerge w (wordsLookup (users d userId) (wid w))) ws"

text \<open>
  The update of \<open>User.updateMany\<close> on one user: when \<open>progress.words.map\<close> exists, the
  key of the word is unset in it.
\<close>

definition unsetMapKey :: "string \<Rightarrow> user \<Rightarrow> user" where
  "unsetMapKey wordId u =
     (case progress u of None \<Rightarrow> u | Some p \<Rightarrow>
      (case words p of None \<Rightarrow> u | Some w \<Rightarrow>
      (case wmap w of None \<Rightarrow> u | Some m \<Rightarrow>
         u\<lparr>progress := Some (p\<lparr>words := Some (w\<lparr>wmap := Some (m(wordId := None))\<rparr>)\<rparr>)\<rparr>)))"

definition deleteWordHandler :: "db \<Rightarrow> string \<Rightarrow> db \<times> response" where
  "deleteWordHandler d wordId =
     (case find (\<lambda>w. wid w = wordId) (wordDocs d) of
        None \<Rightarrow> (d, JsonError 404 ''Word not found'')
      | Some w \<Rightarrow>
          (\<lparr>users = (\<lambda>uid. map_option (unsetMapKey wordId) (users d uid)),
            wordDocs = remove1 w (wordDocs d)\<rparr>,
           WordRemoved))"

section \<open>Theorems\<close>

subsection \<open>Scheduler\<close>

lemma computeReview_easy:
  "computeReview p ''easy'' now =
     \<lparr>ease = Some (min 3.0 (num_or (ease p) 2.5 + 0.15)),
      interval = Some (of_int (if num_or (interval p) 0 = 0 then 1
                   else \<lceil>num_or (interval p) 0 * min 3.0 (num_or (ease p) 2.5 + 0.15)\<rceil>)),
      reviewCount = Some (falsy_or (reviewCount p) 0 + 1),
      lastReviewed = Some now,
      nextReview = Some (now + (if num_or (interval p) 0 = 0 then 1
                   else \<lceil>num_or (interval p) 0 * min 3.0 (num_or (ease p) 2.5 + 0.15)\<rceil>) * msPerDay)\<rparr>"
  by (simp add: computeReview_def Let_def)

lemma computeReview_medium:
  "computeReview p ''medium'' now =
     \<lparr>ease = Some (max 1.3 (num_or (ease p) 2.5 - 0.05)),
      interval = Some (of_int (if num_or (interval p) 0 = 0 then 1
                   else \<lceil>num_or (interval p) 0 * 1.2\<rceil>)),
      reviewCount = Some (falsy_or (reviewCount p) 0 + 1),
      lastReviewed = Some now,
      nextReview = Some (now + (if num_or (interval p) 0 = 0 then 1
                   else \<lceil>num_or (interval p) 0 * 1.2\<rceil>) * msPerDay)\<rparr>"
  by (simp add: computeReview_def Let_def)

lemma computeReview_hard:
  "computeReview p ''hard'' now =
     \<lparr>ease = Some (max 1.3 (num_or (ease p) 2.5 - 0.2)),
      interval = Some 1,
      reviewCount = Some (falsy_or (reviewCount p) 0 + 1),
      lastReviewed = Some now,
      nextReview = Some (now + 1 * msPerDay)\<rparr>"
  by (simp add: computeReview_def Let_def)


lemma ilog2_bounds:
  assumes "x \<noteq> 0"
  shows "2 powi (ilog2 x) \<le> \<bar>x\<bar>" and "\<bar>x\<bar> < 2 powi (ilog2 x + 1)"
proof -
  have "2 powi (ilog2 x) \<le> \<bar>x\<bar> \<and> \<bar>x\<bar> < 2 powi (ilog2 x + 1)"
  proof (cases "1 \<le> \<bar>x\<bar>")
    case True
    define n where "n = \<lfloor>\<bar>x\<bar>\<rfloor>"
    from True have n: "0 < n" by (simp add: n_def)
    from bitlen_bounds [OF n] have b: "2 ^ nat (bitlen n - 1) \<le> n" "n < 2 ^ nat (bitlen n)"
      by simp_all
    from n have k: "1 \<le> bitlen n" using bitlen_eq_zero_iff [of n] bitlen_nonneg [of n] by linarith
    have "real_of_int (2 ^ nat (bitlen n - 1)) \<le> real_of_int n" using b(1) by linarith
    also have "real_of_int n \<le> \<bar>x\<bar>" by (simp add: n_def)
    finally have lo: "2 powi (bitlen n - 1) \<le> \<bar>x\<bar>"
      using k by (simp add: power_int_def)
    have "n + 1 \<le> 2 ^ nat (bitlen n)" using b(2) by simp
    then have "real_of_int (n + 1) \<le> real_of_int (2 ^ nat (bitlen n))" by linarith
    moreover have "\<bar>x\<bar> < real_of_int (n + 1)" by (simp add: n_def)
    ultimately have hi: "\<bar>x\<bar> < 2 powi (bitlen n)"
      using k by (simp add: power_int_def)
    from lo hi True show ?thesis by (simp add: ilog2_def n_def)
  next
    case False
    define y where "y = 1 / \<bar>x\<bar>"
    define m where "m = \<lceil>y\<rceil> - 1"
    from False assms have y: "1 < y" by (simp add: y_def)
    then have m: "0 < m" unfolding m_def by linarith
    from bitlen_bounds [OF m] have b: "2 ^ nat (bitlen m - 1) \<le> m" "m < 2 ^ nat (bitlen m)"
      by simp_all
    from m have k: "1 \<le> bitlen m" using bitlen_eq_zero_iff [of m] bitlen_nonneg [of m] by linarith
    have x: "\<bar>x\<bar> = 1 / y" "0 < \<bar>x\<bar>" using assms by (simp_all add: y_def)
    have my: "real_of_int m < y" "y \<le> real_of_int (m + 1)"
      unfolding m_def by linarith+
    have "m + 1 \<le> 2 ^ nat (bitlen m)" using b(2) by simp
    then have "real_of_int (m + 1) \<le> real_of_int (2 ^ nat (bitlen m))" by linarith
    with my(2) have "y \<le> 2 ^ nat (bitlen m)" by simp
    then have "1 / 2 ^ nat (bitlen m) \<le> 1 / y" using y by (intro divide_left_mono) simp_all
    then have lo: "2 powi (- bitlen m) \<le> \<bar>x\<bar>"
      using k x(1) by (simp add: power_int_def field_simps)
    have "real_of_int (2 ^ nat (bitlen m - 1)) \<le> real_of_int m" using b(1) by linarith
    then have "(2::real) ^ nat (bitlen m - 1) \<le> real_of_int m" by simp
    with my(1) have "2 ^ nat (bitlen m - 1) < y" by linarith
    then have "1 / y < 1 / 2 ^ nat (bitlen m - 1)"
      using y by (intro divide_strict_left_mono) simp_all
    moreover have "2 powi (- bitlen m + 1) = (1::real) / 2 ^ nat (bitlen m - 1)"
    proof -
      have "- bitlen m + 1 = - (bitlen m - 1)" by simp
      then show ?thesis using k by (simp only: power_int_minus) (simp add: power_int_def field_simps)
    qed
    ultimately have hi: "\<bar>x\<bar> < 2 powi (- bitlen m + 1)"
      using x(1) by simp
    from lo hi False show ?thesis by (simp add: ilog2_def m_def y_def)
  qed
  then show "2 powi (ilog2 x) \<le> \<bar>x\<bar>" and "\<bar>x\<bar> < 2 powi (ilog2 x + 1)" by simp_all
qed

lemmas ieee_eval = round64_def ilog2_def roundHalfEven_def compute_bitlen lit_def nmin_def
  nmax_def nsub_def numOr_def falsyOr_def newDate_def intervalMs_def Let_def



text \<open>
  Three values of the step that exact arithmetic does not give: \<open>2.65 - 0.2\<close> is the double
  below 2.45; an interval of 120000000 days puts \<open>nextReview\<close> beyond the range of dates;
  the reviews easy, medium, easy, medium, medium, easy from no entry reach the interval 29.
\<close>

lemma ieee_hard_rounds_down:
  "computeReviewIEEE \<lparr>easeN = Some (Fin (5967269506265907 / 2251799813685248)),
        intervalN = Some (Fin 5), reviewCountN = Some (Fin 1),
        lastReviewedN = None, nextReviewN = None\<rparr> ''hard'' 0 =
     \<lparr>easeN = Some (Fin (5516909543528857 / 2251799813685248)), intervalN = Some (Fin 1),
      reviewCountN = Some (Fin 2), lastReviewedN = Some (ValidDate 0),
      nextReviewN = Some (ValidDate 86400000)\<rparr>"
  by (simp add: computeReviewIEEE_def ieee_eval)

lemma ieee_invalid_date:
  "computeReviewIEEE \<lparr>easeN = Some (Fin 2.5), intervalN = Some (Fin 100000000),
        reviewCountN = Some (Fin 1), lastReviewedN = None, nextReviewN = None\<rparr> ''medium'' 0 =
     \<lparr>easeN = Some (Fin (2758454771764429 / 1125899906842624)),
      intervalN = Some (Fin 120000000), reviewCountN = Some (Fin 2),
      lastReviewedN = Some (ValidDate 0), nextReviewN = Some InvalidDate\<rparr>"
  by (simp add: computeReviewIEEE_def ieee_eval)

lemma ieee_six_reviews:
  "computeReviewIEEE (computeReviewIEEE (computeReviewIEEE (computeReviewIEEE
     (computeReviewIEEE (computeReviewIEEE
        \<lparr>easeN = None, intervalN = None, reviewCountN = None,
         lastReviewedN = None, nextReviewN = None\<rparr>
      ''easy'' 0) ''medium'' 0) ''easy'' 0) ''medium'' 0) ''medium'' 0) ''easy'' 0 =
     \<lparr>easeN = Some (Fin (6305039478318695 / 2251799813685248)), intervalN = Some (Fin 29),
      reviewCountN = Some (Fin 6), lastReviewedN = Some (ValidDate 0),
      nextReviewN = Some (ValidDate 2505600000)\<rparr>"
  by (simp add: computeReviewIEEE_def ieee_eval)






subsection \<open>Codec\<close>

lemma ensure_shape:
  "ensureProgressStructure u =
     u\<lparr>progress := Some \<lparr>words = Some (wordsObjOf u), wordsHistory = Some (historyOf u),
                      mastered = Some (masteredOf u), needsReview = Some (needsReviewOf u)\<rparr>\<rparr>"
proof (cases "progress u")
  case None
  then show ?thesis
    by (simp add: ensureProgressStructure_def wordsObjOf_def historyOf_def masteredOf_def
        needsReviewOf_def)
next
  case (Some p)
  then show ?thesis
    by (cases p)
      (simp add: ensureProgressStructure_def wordsObjOf_def historyOf_def masteredOf_def
        needsReviewOf_def Let_def split: option.splits)
qed

lemma keyedOf_emptyWords [simp]: "keyed emptyWords w = None"
  by (simp add: emptyWords_def)

lemma keyed_wordsObjOf: "keyed (wordsObjOf u) w = keyedOf u w"
  by (simp add: wordsObjOf_def keyedOf_def split: option.splits)

lemma getProgressEntry_eq:
  "getProgressEntry u w = Inr (ensureProgressStructure u, resolveEntry u w)"
  unfolding getProgressEntry_def Let_def
  by (simp add: ensure_shape [of u] keyed_wordsObjOf resolveEntry_def split: option.splits)

lemma ensure_idem: "ensureProgressStructure (ensureProgressStructure u) = ensureProgressStructure u"
  by (simp add: ensure_shape wordsObjOf_def historyOf_def masteredOf_def needsReviewOf_def)

lemma resolve_ensure: "resolveEntry (ensureProgressStructure u) w = resolveEntry u w"
  by (simp add: ensure_shape resolveEntry_def keyedOf_def historyOf_def keyed_wordsObjOf
      split: option.splits)

lemma findIndex_None: "findIndex P xs = None \<longleftrightarrow> (\<forall>x \<in> set xs. \<not> P x)"
  by (induction xs) auto

lemma findIndex_splice1:
  "findIndex (\<lambda>x. x = w) xs = Some i \<Longrightarrow> splice1 i xs = remove1 w xs"
proof (induction xs arbitrary: i)
  case Nil
  then show ?case by simp
next
  case (Cons x xs)
  show ?case
  proof (cases "x = w")
    case True
    with Cons.prems show ?thesis by (simp add: splice1_def)
  next
    case False
    with Cons.prems obtain j where j: "findIndex (\<lambda>x. x = w) xs = Some j" "i = Suc j"
      by auto
    from Cons.IH [OF j(1)] False j(2) show ?thesis
      by (simp add: splice1_def)
  qed
qed


lemma splice_found:
  "(case findIndex (\<lambda>x. x = w) xs of None \<Rightarrow> xs | Some i \<Rightarrow> splice1 i xs) = remove1 w xs"
proof (cases "findIndex (\<lambda>x. x = w) xs")
  case None
  then have "w \<notin> set xs" by (auto simp: findIndex_None)
  with None show ?thesis by (simp add: remove1_idem)
next
  case (Some i)
  then show ?thesis by (simp add: findIndex_splice1)
qed

lemma findIndex_Some_mem: "findIndex P xs = Some i \<Longrightarrow> \<exists>x \<in> set xs. P x"
  using findIndex_None [of P xs] by auto

lemma js_ge_not_lt: "js_ge x 21 \<Longrightarrow> \<not> js_lt x 7"
  by (cases x) (simp_all add: js_ge_def js_lt_def)

text \<open>
  C3, as stated, fails in (a): an entry of the keyed mapping is returned as it is stored,
  its missing fields are not filled with defaults (the callers fill them). Here the stored
  entry has only an interval, and the entry returned has no ease.
\<close>

theorem codec_keyed_entry_counterexample:
  "getProgressEntry
     \<lparr>progress = Some \<lparr>words = Some \<lparr>keyed = [''64b7f0c2a1d3e4f5a6b7c8d9'' \<mapsto>
          \<lparr>ease = None, interval = Some 5, reviewCount = None,
           lastReviewed = None, nextReview = None\<rparr>], wmap = None\<rparr>,
        wordsHistory = Some [], mastered = Some [],
        needsReview = Some [''64b7f0c2a1d3e4f5a6b7c8d9'']\<rparr>\<rparr>
     ''64b7f0c2a1d3e4f5a6b7c8d9''
   = Inr (\<lparr>progress = Some \<lparr>words = Some \<lparr>keyed = [''64b7f0c2a1d3e4f5a6b7c8d9'' \<mapsto>
          \<lparr>ease = None, interval = Some 5, reviewCount = None,
           lastReviewed = None, nextReview = None\<rparr>], wmap = None\<rparr>,
        wordsHistory = Some [], mastered = Some [],
        needsReview = Some [''64b7f0c2a1d3e4f5a6b7c8d9'']\<rparr>\<rparr>,
      \<lparr>ease = None, interval = Some 5, reviewCount = None,
       lastReviewed = None, nextReview = None\<rparr>)"
  by (simp add: getProgressEntry_def ensureProgressStructure_def Let_def)

text \<open>
  C3, amended. For every user record and word id, \<open>getProgressEntry\<close> never fails and
  resolves in this order: (a) the entry of the keyed mapping for the word id, returned as it
  is stored; (b) else the first tuple of the history log with that word id, returned with
  ease, interval and review count filled with their defaults when missing and the two
  timestamps as stored; (c) else the default entry. A missing structure at any level (no
  progress, no mapping, no log) is an empty one, so it yields the default entry.
\<close>

theorem codec_resolution:
  "getProgressEntry u w =
     Inr (ensureProgressStructure u,
          (case keyedOf u w of
             Some e \<Rightarrow> e
           | None \<Rightarrow>
               (case find (\<lambda>h. fst h = w) (historyOf u) of
                  Some h \<Rightarrow> normalizeHistory (snd h)
                | None \<Rightarrow> defaultEntry)))"
  using getProgressEntry_eq [of u w] by (simp add: resolveEntry_def)

theorem codec_resolution_witness:
  "getProgressEntry \<lparr>progress = None\<rparr> ''64b7f0c2a1d3e4f5a6b7c8d9'' =
     Inr (ensureProgressStructure \<lparr>progress = None\<rparr>, defaultEntry)
   \<and> getProgressEntry
       \<lparr>progress = Some \<lparr>words = None,
          wordsHistory = Some [(''64b7f0c2a1d3e4f5a6b7c8d9'',
            \<lparr>ease = None, interval = Some 5, reviewCount = None,
             lastReviewed = Some 7, nextReview = None\<rparr>)],
          mastered = None, needsReview = None\<rparr>\<rparr> ''64b7f0c2a1d3e4f5a6b7c8d9'' =
     Inr (ensureProgressStructure
           \<lparr>progress = Some \<lparr>words = None,
              wordsHistory = Some [(''64b7f0c2a1d3e4f5a6b7c8d9'',
                \<lparr>ease = None, interval = Some 5, reviewCount = None,
                 lastReviewed = Some 7, nextReview = None\<rparr>)],
              mastered = None, needsReview = None\<rparr>\<rparr>,
          \<lparr>ease = Some 2.5, interval = Some 5, reviewCount = Some 0,
           lastReviewed = Some 7, nextReview = None\<rparr>)"
  using codec_resolution [of "\<lparr>progress = None\<rparr>" "''64b7f0c2a1d3e4f5a6b7c8d9''"]
    codec_resolution [of "\<lparr>progress = Some \<lparr>words = None,
          wordsHistory = Some [(''64b7f0c2a1d3e4f5a6b7c8d9'',
            \<lparr>ease = None, interval = Some 5, reviewCount = None,
             lastReviewed = Some 7, nextReview = None\<rparr>)],
          mastered = None, needsReview = None\<rparr>\<rparr>" "''64b7f0c2a1d3e4f5a6b7c8d9''"]
  by (simp add: keyedOf_def historyOf_def normalizeHistory_def num_or_def falsy_or_def)

text \<open>
  C9 fails on the code: \<open>getProgressEntry\<close> starts with \<open>ensureProgressStructure\<close>, which
  assigns the missing parts of \<open>user.progress\<close>. On a user with no progress structure, the
  user object after the call has one.
\<close>

theorem codec_mutates_record:
  "getProgressEntry \<lparr>progress = None\<rparr> ''64b7f0c2a1d3e4f5a6b7c8d9'' =
     Inr (\<lparr>progress = Some \<lparr>words = Some \<lparr>keyed = Map.empty, wmap = None\<rparr>,
             wordsHistory = Some [], mastered = Some [], needsReview = Some []\<rparr>\<rparr>,
          \<lparr>ease = Some 2.5, interval = Some 0, reviewCount = Some 0,
           lastReviewed = None, nextReview = None\<rparr>)
   \<and> \<lparr>progress = Some \<lparr>words = Some \<lparr>keyed = Map.empty, wmap = None\<rparr>,
             wordsHistory = Some [], mastered = Some [], needsReview = Some []\<rparr>\<rparr>
       \<noteq> \<lparr>progress = None\<rparr>"
  by (simp add: getProgressEntry_def ensureProgressStructure_def Let_def emptyWords_def
      defaultEntry_def)

subsection \<open>Reconciler\<close>

lemma views_of_update:
  "masteredOf (u\<lparr>progress := Some p\<rparr>) = (case mastered p of None \<Rightarrow> [] | Some m \<Rightarrow> m)"
  "needsReviewOf (u\<lparr>progress := Some p\<rparr>) = (case needsReview p of None \<Rightarrow> [] | Some n \<Rightarrow> n)"
  "historyOf (u\<lparr>progress := Some p\<rparr>) = (case wordsHistory p of None \<Rightarrow> [] | Some h \<Rightarrow> h)"
  "keyedOf (u\<lparr>progress := Some p\<rparr>) w = (case words p of None \<Rightarrow> None | Some x \<Rightarrow> keyed x w)"
  by (simp_all add: masteredOf_def needsReviewOf_def historyOf_def keyedOf_def)

lemma setProgressEntry_views:
  "\<exists>u'. setProgressEntry u w e = Inr u'
        \<and> masteredOf u' = masteredAfter (masteredOf u) w e
        \<and> needsReviewOf u' = needsReviewAfter (needsReviewOf u) w e
        \<and> keyedOf u' = (keyedOf u)(w \<mapsto> e)"
proof -
  let ?m = "masteredOf u" and ?n = "needsReviewOf u"
  have m: "(case findIndex (\<lambda>x. x = w) ?m of None \<Rightarrow> ?m | Some i \<Rightarrow> splice1 i ?m) = remove1 w ?m"
    by (rule splice_found)
  have n: "(case findIndex (\<lambda>x. x = w) ?n of None \<Rightarrow> ?n | Some i \<Rightarrow> splice1 i ?n) = remove1 w ?n"
    by (rule splice_found)
  have mi: "(findIndex (\<lambda>x. x = w) ?m = None) = (w \<notin> set ?m)"
    by (auto simp: findIndex_None)
  have ni: "(findIndex (\<lambda>x. x = w) ?n = None) = (w \<notin> set ?n)"
    by (auto simp: findIndex_None)
  have k: "keyed (wordsObjOf u) = keyedOf u"
    by (rule ext) (simp add: keyed_wordsObjOf)
  show ?thesis
    unfolding setProgressEntry_def Let_def
    by (simp add: ensure_shape [of u] m n mi ni k masteredAfter_def needsReviewAfter_def
        views_of_update fun_eq_iff js_ge_not_lt)
qed

lemma membership_inv_fresh: "membership_inv \<lparr>progress = None\<rparr>"
  by (simp add: membership_inv_def masteredOf_def needsReviewOf_def)


lemma membership_inv_ensure:
  "membership_inv (ensureProgressStructure u) = membership_inv u"
  by (simp add: membership_inv_def ensure_shape views_of_update)

text \<open>
  C2, as stated, fails: \<open>findIndex\<close> and \<open>splice\<close> remove one occurrence of the word id,
  so the rule holds only when the arrays hold no id twice. With the word id twice in
  \<open>needsReview\<close>, a write of the interval 27 leaves it in \<open>needsReview\<close> and adds it to
  \<open>mastered\<close>.
\<close>

theorem membership_duplicate_counterexample:
  "setProgressEntry
     \<lparr>progress = Some \<lparr>words = Some \<lparr>keyed = Map.empty, wmap = None\<rparr>,
        wordsHistory = Some [], mastered = Some [],
        needsReview = Some [''64b7f0c2a1d3e4f5a6b7c8d9'', ''64b7f0c2a1d3e4f5a6b7c8d9'']\<rparr>\<rparr>
     ''64b7f0c2a1d3e4f5a6b7c8d9''
     \<lparr>ease = Some 2.65, interval = Some 27, reviewCount = Some 2,
      lastReviewed = Some 0, nextReview = Some 2332800000\<rparr>
   = Inr \<lparr>progress = Some \<lparr>words = Some \<lparr>keyed = [''64b7f0c2a1d3e4f5a6b7c8d9'' \<mapsto>
              \<lparr>ease = Some 2.65, interval = Some 27, reviewCount = Some 2,
               lastReviewed = Some 0, nextReview = Some 2332800000\<rparr>], wmap = None\<rparr>,
            wordsHistory = Some [(''64b7f0c2a1d3e4f5a6b7c8d9'',
              \<lparr>ease = Some 2.65, interval = Some 27, reviewCount = Some 2,
               lastReviewed = Some 0, nextReview = Some 2332800000\<rparr>)],
            mastered = Some [''64b7f0c2a1d3e4f5a6b7c8d9''],
            needsReview = Some [''64b7f0c2a1d3e4f5a6b7c8d9'']\<rparr>\<rparr>"
  by (simp add: setProgressEntry_def ensureProgressStructure_def Let_def js_ge_def js_lt_def
      splice1_def)


text \<open>
  C2, amended. Take a user record whose two membership arrays stand for two disjoint sets
  (no id twice in one array or in both): a record with no progress structure is one, and
  every write gives one again. After a write by \<open>setProgressEntry\<close> of an entry for a word
  id into such a record, the word id is in \<open>mastered\<close> exactly when the written interval is
  at least 21, in \<open>needsReview\<close> exactly when it is below 7, in neither when it is between
  7 and 21, and the two arrays are disjoint.
\<close>

theorem membership_after_write:
  assumes "membership_inv u"
  shows "\<exists>u'. setProgressEntry u w e = Inr u'
           \<and> (w \<in> set (masteredOf u') \<longleftrightarrow> js_ge (interval e) 21)
           \<and> (w \<in> set (needsReviewOf u') \<longleftrightarrow> js_lt (interval e) 7)
           \<and> (\<forall>i. interval e = Some i \<and> 7 \<le> i \<and> i < 21
                 \<longrightarrow> w \<notin> set (masteredOf u') \<and> w \<notin> set (needsReviewOf u'))
           \<and> set (masteredOf u') \<inter> set (needsReviewOf u') = {}
           \<and> membership_inv u'"
proof -
  let ?m = "masteredOf u" and ?n = "needsReviewOf u"
  from assms have d: "distinct ?m" "distinct ?n" "set ?m \<inter> set ?n = {}"
    by (simp_all add: membership_inv_def)
  obtain u' where u': "setProgressEntry u w e = Inr u'"
      "masteredOf u' = masteredAfter ?m w e" "needsReviewOf u' = needsReviewAfter ?n w e"
    using setProgressEntry_views [of u w e] by blast
  have sm: "set (masteredAfter ?m w e) =
      (if js_ge (interval e) 21 then insert w (set ?m) else set ?m - {w})"
    using d(1) by (auto simp: masteredAfter_def)
  have sn: "set (needsReviewAfter ?n w e) =
      (if js_ge (interval e) 21 then set ?n - {w}
       else if js_lt (interval e) 7 then insert w (set ?n) else set ?n - {w})"
    using d(2) by (auto simp: needsReviewAfter_def)
  have dm: "distinct (masteredAfter ?m w e)"
    using d(1) by (simp add: masteredAfter_def)
  have dn: "distinct (needsReviewAfter ?n w e)"
    using d(2) by (simp add: needsReviewAfter_def)
  have a: "w \<in> set (masteredOf u') \<longleftrightarrow> js_ge (interval e) 21"
    by (simp add: u'(2) sm)
  have b: "w \<in> set (needsReviewOf u') \<longleftrightarrow> js_lt (interval e) 7"
    by (auto simp: u'(3) sn js_ge_not_lt)
  have c: "\<forall>i. interval e = Some i \<and> 7 \<le> i \<and> i < 21
                 \<longrightarrow> w \<notin> set (masteredOf u') \<and> w \<notin> set (needsReviewOf u')"
    by (auto simp: a b js_ge_def js_lt_def)
  have dj: "set (masteredOf u') \<inter> set (needsReviewOf u') = {}"
    using d(3) by (auto simp: u'(2,3) sm sn split: if_splits)
  have inv: "membership_inv u'"
    unfolding membership_inv_def using dm dn dj by (simp add: u'(2,3))
  from u'(1) a b c dj inv show ?thesis by blast
qed

theorem membership_after_write_witness:
  "membership_inv \<lparr>progress = Some \<lparr>words = None, wordsHistory = None, mastered = Some [],
        needsReview = Some [''64b7f0c2a1d3e4f5a6b7c8d9'']\<rparr>\<rparr>
   \<and> (\<exists>u'. setProgressEntry \<lparr>progress = Some \<lparr>words = None, wordsHistory = None,
              mastered = Some [], needsReview = Some [''64b7f0c2a1d3e4f5a6b7c8d9'']\<rparr>\<rparr>
            ''64b7f0c2a1d3e4f5a6b7c8d9''
            \<lparr>ease = Some 2.65, interval = Some 27, reviewCount = Some 2,
             lastReviewed = Some 0, nextReview = Some 2332800000\<rparr> = Inr u'
          \<and> ''64b7f0c2a1d3e4f5a6b7c8d9'' \<in> set (masteredOf u')
          \<and> ''64b7f0c2a1d3e4f5a6b7c8d9'' \<notin> set (needsReviewOf u')
          \<and> set (masteredOf u') \<inter> set (needsReviewOf u') = {})"
proof -
  let ?u = "\<lparr>progress = Some \<lparr>words = None, wordsHistory = None, mastered = Some [],
        needsReview = Some [''64b7f0c2a1d3e4f5a6b7c8d9'']\<rparr>\<rparr>"
  let ?e = "\<lparr>ease = Some 2.65, interval = Some 27, reviewCount = Some 2,
             lastReviewed = Some 0, nextReview = Some 2332800000\<rparr>"
  have h: "membership_inv ?u"
    by (simp add: membership_inv_def masteredOf_def needsReviewOf_def)
  from membership_after_write [OF h, of "''64b7f0c2a1d3e4f5a6b7c8d9''" ?e]
  obtain u' where "setProgressEntry ?u ''64b7f0c2a1d3e4f5a6b7c8d9'' ?e = Inr u'"
    and "''64b7f0c2a1d3e4f5a6b7c8d9'' \<in> set (masteredOf u') \<longleftrightarrow> js_ge (interval ?e) 21"
    and "''64b7f0c2a1d3e4f5a6b7c8d9'' \<in> set (needsReviewOf u') \<longleftrightarrow> js_lt (interval ?e) 7"
    and "set (masteredOf u') \<inter> set (needsReviewOf u') = {}"
    by blast
  with h show ?thesis
    by (auto simp: js_ge_def js_lt_def)
qed

subsection \<open>Request handlers\<close>

lemma valid_ids:
  "isValidObjectId ''5f1d7f3e2a4b6c8d9e0f1a2b''" "isValidObjectId ''64b7f0c2a1d3e4f5a6b7c8d9''"
  "isValidObjectId ''64b7f0c2a1d3e4f5a6b7c8da''"
  by (simp_all add: isValidObjectId_def)

lemmas eval_defs = reviewHandler_def falsyStr_def getProgressEntry_def
      ensureProgressStructure_def setProgressEntry_def computeReview_def Let_def
      emptyWords_def defaultEntry_def num_or_def falsy_or_def js_ge_def js_lt_def msPerDay_def


lemma review_easy_example:
  "reviewHandler
        \<lparr>users = [''5f1d7f3e2a4b6c8d9e0f1a2b'' \<mapsto> \<lparr>progress = None\<rparr>],
         wordDocs = [\<lparr>wid = ''64b7f0c2a1d3e4f5a6b7c8d9'', portuguese = ''casa'', english = ''house''\<rparr>]\<rparr>
        ''5f1d7f3e2a4b6c8d9e0f1a2b'' (Some ''64b7f0c2a1d3e4f5a6b7c8d9'') (Some ''easy'') 0
   = (\<lparr>users = [''5f1d7f3e2a4b6c8d9e0f1a2b'' \<mapsto>
         \<lparr>progress = Some \<lparr>words = Some \<lparr>keyed = [''64b7f0c2a1d3e4f5a6b7c8d9'' \<mapsto>
                \<lparr>ease = Some 2.65, interval = Some 1, reviewCount = Some 1,
                 lastReviewed = Some 0, nextReview = Some 86400000\<rparr>], wmap = None\<rparr>,
              wordsHistory = Some [(''64b7f0c2a1d3e4f5a6b7c8d9'',
                \<lparr>ease = Some 2.65, interval = Some 1, reviewCount = Some 1,
                 lastReviewed = Some 0, nextReview = Some 86400000\<rparr>)],
              mastered = Some [],
              needsReview = Some [''64b7f0c2a1d3e4f5a6b7c8d9'']\<rparr>\<rparr>],
        wordDocs = [\<lparr>wid = ''64b7f0c2a1d3e4f5a6b7c8d9'', portuguese = ''casa'', english = ''house''\<rparr>]\<rparr>,
      ReviewSaved ''64b7f0c2a1d3e4f5a6b7c8d9''
         \<lparr>ease = Some 2.65, interval = Some 1, reviewCount = Some 1,
          lastReviewed = Some 0, nextReview = Some 86400000\<rparr>)"
  by (simp add: eval_defs valid_ids)

text \<open>
  The first guard of the handler: a request with a missing or empty difficulty is answered
  with the error 400 and nothing is read or written.
\<close>

lemma review_rejects_missing_outcome:
  assumes "falsyStr difficulty"
  shows "reviewHandler d userId wordId difficulty now =
           (d, JsonError 400 ''wordId and difficulty are required'')"
  using assms by (simp add: reviewHandler_def)

text \<open>
  C4 fails on the code: no guard tests that the difficulty is one of \<open>easy\<close>, \<open>medium\<close>,
  \<open>hard\<close>, the three values that the comment of the handler gives for the body. The
  difficulty \<open>foo\<close> reaches the last branch, commented \<open>hard\<close>: the request is answered
  with the saved entry and the user record is written, where the claim says it is rejected
  before any change of the record.
\<close>

theorem review_accepts_invalid_outcome:
  "snd (reviewHandler
        \<lparr>users = [''5f1d7f3e2a4b6c8d9e0f1a2b'' \<mapsto> \<lparr>progress = None\<rparr>],
         wordDocs = [\<lparr>wid = ''64b7f0c2a1d3e4f5a6b7c8d9'', portuguese = ''casa'', english = ''house''\<rparr>]\<rparr>
        ''5f1d7f3e2a4b6c8d9e0f1a2b'' (Some ''64b7f0c2a1d3e4f5a6b7c8d9'') (Some ''foo'') 0)
     = ReviewSaved ''64b7f0c2a1d3e4f5a6b7c8d9''
         \<lparr>ease = Some 2.3, interval = Some 1, reviewCount = Some 1,
          lastReviewed = Some 0, nextReview = Some 86400000\<rparr>
   \<and> users (fst (reviewHandler
        \<lparr>users = [''5f1d7f3e2a4b6c8d9e0f1a2b'' \<mapsto> \<lparr>progress = None\<rparr>],
         wordDocs = [\<lparr>wid = ''64b7f0c2a1d3e4f5a6b7c8d9'', portuguese = ''casa'', english = ''house''\<rparr>]\<rparr>
        ''5f1d7f3e2a4b6c8d9e0f1a2b'' (Some ''64b7f0c2a1d3e4f5a6b7c8d9'') (Some ''foo'') 0))
       ''5f1d7f3e2a4b6c8d9e0f1a2b''
     = Some \<lparr>progress = Some \<lparr>words = Some \<lparr>keyed = [''64b7f0c2a1d3e4f5a6b7c8d9'' \<mapsto>
                \<lparr>ease = Some 2.3, interval = Some 1, reviewCount = Some 1,
                 lastReviewed = Some 0, nextReview = Some 86400000\<rparr>], wmap = None\<rparr>,
              wordsHistory = Some [(''64b7f0c2a1d3e4f5a6b7c8d9'',
                \<lparr>ease = Some 2.3, interval = Some 1, reviewCount = Some 1,
                 lastReviewed = Some 0, nextReview = Some 86400000\<rparr>)],
              mastered = Some [],
              needsReview = Some [''64b7f0c2a1d3e4f5a6b7c8d9'']\<rparr>\<rparr>"
  by (simp add: eval_defs valid_ids)

theorem review_accepts_invalid_outcome_witness:
  "users (fst (reviewHandler
        \<lparr>users = [''5f1d7f3e2a4b6c8d9e0f1a2b'' \<mapsto> \<lparr>progress = None\<rparr>],
         wordDocs = [\<lparr>wid = ''64b7f0c2a1d3e4f5a6b7c8d9'', portuguese = ''casa'', english = ''house''\<rparr>]\<rparr>
        ''5f1d7f3e2a4b6c8d9e0f1a2b'' (Some ''64b7f0c2a1d3e4f5a6b7c8d9'') (Some ''foo'') 0))
       ''5f1d7f3e2a4b6c8d9e0f1a2b''
     \<noteq> users
        \<lparr>users = [''5f1d7f3e2a4b6c8d9e0f1a2b'' \<mapsto> \<lparr>progress = None\<rparr>],
         wordDocs = [\<lparr>wid = ''64b7f0c2a1d3e4f5a6b7c8d9'', portuguese = ''casa'', english = ''house''\<rparr>]\<rparr>
       ''5f1d7f3e2a4b6c8d9e0f1a2b''"
  using review_accepts_invalid_outcome by simp

lemma mergeAll_eq:
  "\<exists>u'. mergeAll u ws = Inr (u', map (\<lambda>w. mergeProgress w (resolveEntry u (wid w))) ws)"
proof (induction ws arbitrary: u)
  case Nil
  show ?case by simp
next
  case (Cons w ws)
  from Cons.IH [of "ensureProgressStructure u"]
  obtain u' where "mergeAll (ensureProgressStructure u) ws =
      Inr (u', map (\<lambda>w. mergeProgress w (resolveEntry u (wid w))) ws)"
    by (auto simp: resolve_ensure)
  then show ?case
    by (simp add: getProgressEntry_eq)
qed

lemma dueFilter_eq:
  "\<exists>u'. dueFilter u now ws = Inr (u', filter (\<lambda>w. isDue (resolveEntry u (wid w)) now) ws)
        \<and> (u' = u \<or> u' = ensureProgressStructure u)"
proof (induction ws arbitrary: u)
  case Nil
  show ?case by simp
next
  case (Cons w ws)
  from Cons.IH [of "ensureProgressStructure u"]
  obtain u' where "dueFilter (ensureProgressStructure u) now ws =
      Inr (u', filter (\<lambda>w. isDue (resolveEntry u (wid w)) now) ws)"
    and "u' = ensureProgressStructure u"
    by (auto simp: resolve_ensure ensure_idem)
  then show ?case
    by (simp add: getProgressEntry_eq)
qed

lemma listHandler_eq:
  assumes "isValidObjectId userId" and "users d userId = Some u"
  shows "listHandler d userId =
           WordList (map (\<lambda>w. mergeProgress w (resolveEntry u (wid w))) (wordDocs d))"
  using assms mergeAll_eq [of u "wordDocs d"] by (auto simp: listHandler_def)

text \<open>
  C6. For every list of words (in the order of the query), every user record and every
  time \<open>now\<close>, the answer of GET /api/flashcards/due for an existing user is the words, in
  the order of the list, whose entry resolved by the codec has no \<open>nextReview\<close> or one that
  is at most \<open>now\<close>, each merged with that entry; a word with no entry in the keyed mapping
  and no tuple in the history log is in the answer at any \<open>now\<close>.
\<close>

theorem due_list_is_catalog_filter:
  assumes "isValidObjectId userId" and "users d userId = Some u"
  shows "\<exists>res. dueHandler d userId now = WordList res
           \<and> map wpWord res =
               filter (\<lambda>w. case nextReview (resolveEntry u (wid w)) of
                             None \<Rightarrow> True | Some t \<Rightarrow> t \<le> now) (wordDocs d)
           \<and> res = map (\<lambda>w. mergeProgress w (resolveEntry u (wid w))) (map wpWord res)
           \<and> (\<forall>w \<in> set (wordDocs d).
                 keyedOf u (wid w) = None \<and> find (\<lambda>h. fst h = wid w) (historyOf u) = None
                 \<longrightarrow> w \<in> set (map wpWord res))"
proof -
  let ?due = "filter (\<lambda>w. isDue (resolveEntry u (wid w)) now) (wordDocs d)"
  obtain u1 where f: "dueFilter u now (wordDocs d) = Inr (u1, ?due)"
    and u1: "u1 = u \<or> u1 = ensureProgressStructure u"
    using dueFilter_eq [of u now "wordDocs d"] by blast
  from u1 have r: "resolveEntry u1 = resolveEntry u"
    by (auto simp: fun_eq_iff resolve_ensure)
  obtain u2 where m: "mergeAll u1 ?due =
      Inr (u2, map (\<lambda>w. mergeProgress w (resolveEntry u (wid w))) ?due)"
    using mergeAll_eq [of u1 ?due] by (auto simp: r)
  let ?res = "map (\<lambda>w. mergeProgress w (resolveEntry u (wid w))) ?due"
  have h: "dueHandler d userId now = WordList ?res"
    using assms f m by (simp add: dueHandler_def)
  have w: "map wpWord ?res = ?due"
    by (simp add: o_def mergeProgress_def)
  have p: "?due = filter (\<lambda>w. case nextReview (resolveEntry u (wid w)) of
                             None \<Rightarrow> True | Some t \<Rightarrow> t \<le> now) (wordDocs d)"
    by (simp add: isDue_def)
  have q: "\<forall>w \<in> set (wordDocs d).
             keyedOf u (wid w) = None \<and> find (\<lambda>h. fst h = wid w) (historyOf u) = None
             \<longrightarrow> w \<in> set ?due"
    by (simp add: resolveEntry_def isDue_def defaultEntry_def)
  have e: "?res = map (\<lambda>w. mergeProgress w (resolveEntry u (wid w))) (map wpWord ?res)"
    by (simp only: w)
  from h w p q e show ?thesis
    by (intro exI [of _ ?res]) (simp only: simp_thms)
qed

theorem due_list_is_catalog_filter_witness:
  "isValidObjectId ''5f1d7f3e2a4b6c8d9e0f1a2b''
   \<and> dueHandler
       \<lparr>users = [''5f1d7f3e2a4b6c8d9e0f1a2b'' \<mapsto>
          \<lparr>progress = Some \<lparr>words = Some \<lparr>keyed = [''64b7f0c2a1d3e4f5a6b7c8d9'' \<mapsto>
              \<lparr>ease = Some 2.65, interval = Some 1, reviewCount = Some 1,
               lastReviewed = Some 0, nextReview = Some 86400000\<rparr>], wmap = None\<rparr>,
            wordsHistory = None, mastered = None, needsReview = None\<rparr>\<rparr>],
        wordDocs = [\<lparr>wid = ''64b7f0c2a1d3e4f5a6b7c8d9'', portuguese = ''casa'', english = ''house''\<rparr>,
                    \<lparr>wid = ''64b7f0c2a1d3e4f5a6b7c8da'', portuguese = ''gato'', english = ''cat''\<rparr>]\<rparr>
       ''5f1d7f3e2a4b6c8d9e0f1a2b'' 5000
     = WordList [\<lparr>wpWord = \<lparr>wid = ''64b7f0c2a1d3e4f5a6b7c8da'', portuguese = ''gato'', english = ''cat''\<rparr>,
                  wpEase = 2.5, wpInterval = 0, wpReviewCount = 0,
                  wpLastReviewed = None, wpNextReview = None\<rparr>]"
proof -
  let ?u = "\<lparr>progress = Some \<lparr>words = Some \<lparr>keyed = [''64b7f0c2a1d3e4f5a6b7c8d9'' \<mapsto>
              \<lparr>ease = Some 2.65, interval = Some 1, reviewCount = Some 1,
               lastReviewed = Some 0, nextReview = Some 86400000\<rparr>], wmap = None\<rparr>,
            wordsHistory = None, mastered = None, needsReview = None\<rparr>\<rparr>"
  let ?d = "\<lparr>users = [''5f1d7f3e2a4b6c8d9e0f1a2b'' \<mapsto> ?u],
        wordDocs = [\<lparr>wid = ''64b7f0c2a1d3e4f5a6b7c8d9'', portuguese = ''casa'', english = ''house''\<rparr>,
                    \<lparr>wid = ''64b7f0c2a1d3e4f5a6b7c8da'', portuguese = ''gato'', english = ''cat''\<rparr>]\<rparr>"
  have h1: "isValidObjectId ''5f1d7f3e2a4b6c8d9e0f1a2b''"
    by (simp add: isValidObjectId_def)
  have h2: "users ?d ''5f1d7f3e2a4b6c8d9e0f1a2b'' = Some ?u"
    by simp
  from due_list_is_catalog_filter [OF h1 h2, of 5000]
  obtain res where r: "dueHandler ?d ''5f1d7f3e2a4b6c8d9e0f1a2b'' 5000 = WordList res"
    and w: "map wpWord res = filter (\<lambda>w. case nextReview (resolveEntry ?u (wid w)) of
                             None \<Rightarrow> True | Some t \<Rightarrow> t \<le> 5000) (wordDocs ?d)"
    and e: "res = map (\<lambda>w. mergeProgress w (resolveEntry ?u (wid w))) (map wpWord res)"
    by blast
  have "map wpWord res = [\<lparr>wid = ''64b7f0c2a1d3e4f5a6b7c8da'', portuguese = ''gato'', english = ''cat''\<rparr>]"
    unfolding w by (simp add: resolveEntry_def keyedOf_def historyOf_def defaultEntry_def)
  with e have "res = [mergeProgress \<lparr>wid = ''64b7f0c2a1d3e4f5a6b7c8da'', portuguese = ''gato'', english = ''cat''\<rparr>
       (resolveEntry ?u ''64b7f0c2a1d3e4f5a6b7c8da'')]"
    by simp
  then have "res = [\<lparr>wpWord = \<lparr>wid = ''64b7f0c2a1d3e4f5a6b7c8da'', portuguese = ''gato'', english = ''cat''\<rparr>,
                  wpEase = 2.5, wpInterval = 0, wpReviewCount = 0,
                  wpLastReviewed = None, wpNextReview = None\<rparr>]"
    by (simp add: mergeProgress_def resolveEntry_def keyedOf_def historyOf_def defaultEntry_def
        num_or_def falsy_or_def)
  with r h1 show ?thesis by simp
qed


text \<open>
  C5 fails on the code: the listing of routes/words.js does not read through the codec. It
  reads \<open>progress.words.map\<close>, which the review path never writes, has no fallback to the
  history log, and fills defaults with \<open>||\<close>. After one easy review of a word by a user
  with no progress, the listing of routes/flashcards.js shows the entry written and the
  listing of routes/words.js shows the defaults.
\<close>

theorem listing_paths_diverge:
  "listHandler (fst (reviewHandler
        \<lparr>users = [''5f1d7f3e2a4b6c8d9e0f1a2b'' \<mapsto> \<lparr>progress = None\<rparr>],
         wordDocs = [\<lparr>wid = ''64b7f0c2a1d3e4f5a6b7c8d9'', portuguese = ''casa'', english = ''house''\<rparr>]\<rparr>
        ''5f1d7f3e2a4b6c8d9e0f1a2b'' (Some ''64b7f0c2a1d3e4f5a6b7c8d9'') (Some ''easy'') 0))
      ''5f1d7f3e2a4b6c8d9e0f1a2b''
    = WordList [\<lparr>wpWord = \<lparr>wid = ''64b7f0c2a1d3e4f5a6b7c8d9'', portuguese = ''casa'', english = ''house''\<rparr>,
                 wpEase = 2.65, wpInterval = 1, wpReviewCount = 1,
                 wpLastReviewed = Some 0, wpNextReview = Some 86400000\<rparr>]
   \<and> wordsListMerge (fst (reviewHandler
        \<lparr>users = [''5f1d7f3e2a4b6c8d9e0f1a2b'' \<mapsto> \<lparr>progress = None\<rparr>],
         wordDocs = [\<lparr>wid = ''64b7f0c2a1d3e4f5a6b7c8d9'', portuguese = ''casa'', english = ''house''\<rparr>]\<rparr>
        ''5f1d7f3e2a4b6c8d9e0f1a2b'' (Some ''64b7f0c2a1d3e4f5a6b7c8d9'') (Some ''easy'') 0))
      ''5f1d7f3e2a4b6c8d9e0f1a2b''
      [\<lparr>wid = ''64b7f0c2a1d3e4f5a6b7c8d9'', portuguese = ''casa'', english = ''house''\<rparr>]
    = [\<lparr>wpWord = \<lparr>wid = ''64b7f0c2a1d3e4f5a6b7c8d9'', portuguese = ''casa'', english = ''house''\<rparr>,
        wpEase = 2.5, wpInterval = 0, wpReviewCount = 0,
        wpLastReviewed = None, wpNextReview = None\<rparr>]"
  by (simp add: review_easy_example listHandler_def valid_ids getProgressEntry_def
      ensureProgressStructure_def Let_def mergeProgress_def num_or_def falsy_or_def
      wordsListMerge_def wordsLookup_def wordsMerge_def emptyObj_def)

theorem listing_paths_diverge_witness:
  "listHandler (fst (reviewHandler
        \<lparr>users = [''5f1d7f3e2a4b6c8d9e0f1a2b'' \<mapsto> \<lparr>progress = None\<rparr>],
         wordDocs = [\<lparr>wid = ''64b7f0c2a1d3e4f5a6b7c8d9'', portuguese = ''casa'', english = ''house''\<rparr>]\<rparr>
        ''5f1d7f3e2a4b6c8d9e0f1a2b'' (Some ''64b7f0c2a1d3e4f5a6b7c8d9'') (Some ''easy'') 0))
      ''5f1d7f3e2a4b6c8d9e0f1a2b''
    \<noteq> WordList (wordsListMerge (fst (reviewHandler
        \<lparr>users = [''5f1d7f3e2a4b6c8d9e0f1a2b'' \<mapsto> \<lparr>progress = None\<rparr>],
         wordDocs = [\<lparr>wid = ''64b7f0c2a1d3e4f5a6b7c8d9'', portuguese = ''casa'', english = ''house''\<rparr>]\<rparr>
        ''5f1d7f3e2a4b6c8d9e0f1a2b'' (Some ''64b7f0c2a1d3e4f5a6b7c8d9'') (Some ''easy'') 0))
      ''5f1d7f3e2a4b6c8d9e0f1a2b''
      [\<lparr>wid = ''64b7f0c2a1d3e4f5a6b7c8d9'', portuguese = ''casa'', english = ''house''\<rparr>])"
  using listing_paths_diverge by simp

text \<open>
  C8 fails on the code: DELETE /:id of routes/words.js unsets the key of the word in
  \<open>progress.words.map\<close> only. A user with an entry for the word in that map reviews the
  word once; after the word is deleted the map has lost the key, and the keyed mapping, the
  history log and \<open>needsReview\<close> still hold the word id.
\<close>

theorem delete_leaves_progress:
  "deleteWordHandler (fst (reviewHandler
        \<lparr>users = [''5f1d7f3e2a4b6c8d9e0f1a2b'' \<mapsto>
           \<lparr>progress = Some \<lparr>words = Some \<lparr>keyed = Map.empty,
                wmap = Some [''64b7f0c2a1d3e4f5a6b7c8d9'' \<mapsto>
                  \<lparr>ease = Some 2.5, interval = Some 3, reviewCount = Some 1,
                   lastReviewed = None, nextReview = None\<rparr>]\<rparr>,
              wordsHistory = Some [], mastered = Some [], needsReview = Some []\<rparr>\<rparr>],
         wordDocs = [\<lparr>wid = ''64b7f0c2a1d3e4f5a6b7c8d9'', portuguese = ''casa'', english = ''house''\<rparr>]\<rparr>
        ''5f1d7f3e2a4b6c8d9e0f1a2b'' (Some ''64b7f0c2a1d3e4f5a6b7c8d9'') (Some ''easy'') 0))
      ''64b7f0c2a1d3e4f5a6b7c8d9''
   = (\<lparr>users = [''5f1d7f3e2a4b6c8d9e0f1a2b'' \<mapsto>
         \<lparr>progress = Some \<lparr>words = Some \<lparr>keyed = [''64b7f0c2a1d3e4f5a6b7c8d9'' \<mapsto>
                \<lparr>ease = Some 2.65, interval = Some 1, reviewCount = Some 1,
                 lastReviewed = Some 0, nextReview = Some 86400000\<rparr>],
                wmap = Some Map.empty\<rparr>,
              wordsHistory = Some [(''64b7f0c2a1d3e4f5a6b7c8d9'',
                \<lparr>ease = Some 2.65, interval = Some 1, reviewCount = Some 1,
                 lastReviewed = Some 0, nextReview = Some 86400000\<rparr>)],
              mastered = Some [],
              needsReview = Some [''64b7f0c2a1d3e4f5a6b7c8d9'']\<rparr>\<rparr>],
        wordDocs = []\<rparr>,
      WordRemoved)"
  by (simp add: eval_defs valid_ids deleteWordHandler_def unsetMapKey_def fun_eq_iff)

theorem delete_leaves_progress_witness:
  "map_option needsReviewOf (users (fst (deleteWordHandler (fst (reviewHandler
        \<lparr>users = [''5f1d7f3e2a4b6c8d9e0f1a2b'' \<mapsto>
           \<lparr>progress = Some \<lparr>words = Some \<lparr>keyed = Map.empty,
                wmap = Some [''64b7f0c2a1d3e4f5a6b7c8d9'' \<mapsto>
                  \<lparr>ease = Some 2.5, interval = Some 3, reviewCount = Some 1,
                   lastReviewed = None, nextReview = None\<rparr>]\<rparr>,
              wordsHistory = Some [], mastered = Some [], needsReview = Some []\<rparr>\<rparr>],
         wordDocs = [\<lparr>wid = ''64b7f0c2a1d3e4f5a6b7c8d9'', portuguese = ''casa'', english = ''house''\<rparr>]\<rparr>
        ''5f1d7f3e2a4b6c8d9e0f1a2b'' (Some ''64b7f0c2a1d3e4f5a6b7c8d9'') (Some ''easy'') 0))
      ''64b7f0c2a1d3e4f5a6b7c8d9'')) ''5f1d7f3e2a4b6c8d9e0f1a2b'')
   = Some [''64b7f0c2a1d3e4f5a6b7c8d9'']"
  using delete_leaves_progress by (simp add: needsReviewOf_def)

end
